theory Spec2Isabelle
  imports Complex_Main
begin

section \<open>The bouncing ball in a tesseract (script.py)\<close>

text \<open>
  The script keeps its configuration and the ball in module-level variables. The model
  passes them explicitly: the configuration as a record \<open>params\<close> whose instance
  \<open>defaults\<close> holds the values written in the script, the mutable globals as a record
  \<open>globals\<close>. numpy arrays of floats are lists of reals; arithmetic is exact (rounding of
  IEEE doubles is not modelled). Python exceptions are values of type \<open>error\<close>.
\<close>

subsection \<open>Parameters and state\<close>

record params =
  bounds :: "real \<times> real"
  ball_radius :: real
  dt :: real
  projection_distance :: real

text \<open>Lines 10, 13, 19 and 23 of the script.\<close>

definition defaults :: params where
  "defaults = \<lparr> bounds = (-1, 1), ball_radius = 1 / 10, dt = 1 / 50, projection_distance = 3 \<rparr>"

datatype error = IndexError | ValueError

text \<open>
  The result of a projection: an array of three finite numbers, or \<open>NonFinite\<close> where
  numpy divides by zero and fills the array with \<open>inf\<close> or \<open>nan\<close> (a RuntimeWarning, no
  exception; plain Python floats would raise ZeroDivisionError there).
\<close>

datatype projected = Finite "real list" | NonFinite

text \<open>
  The globals that change while the animation runs: \<open>ball_pos\<close>, \<open>ball_vel\<close> and the
  scatter object's \<open>_offsets3d\<close>.
\<close>

record globals =
  ball_pos :: "real list"
  ball_vel :: "real list"
  offsets3d :: projected

subsection \<open>numpy arithmetic on one-dimensional arrays\<close>

text \<open>\<open>a * k\<close> for an array and a scalar.\<close>

definition np_scale :: "real list \<Rightarrow> real \<Rightarrow> real list" where
  "np_scale a k = map (\<lambda>x. x * k) a"

text \<open>
  \<open>a + b\<close> for two arrays: elementwise for equal shapes, an array of one element is
  broadcast, any other pair of shapes raises ValueError.
\<close>

definition np_add :: "real list \<Rightarrow> real list \<Rightarrow> error + real list" where
  "np_add a b =
     (if length a = length b then Inr (map2 (+) a b)
      else if length a = 1 then Inr (map (\<lambda>y. hd a + y) b)
      else if length b = 1 then Inr (map (\<lambda>x. x + hd b) a)
      else Inl ValueError)"

subsection \<open>The ball update (lines 62 to 76)\<close>

text \<open>
  The body of the loop over the axes, for one axis \<open>i\<close>. Reading \<open>ball_pos[i]\<close> or
  updating \<open>ball_vel[i]\<close> beyond the end of the array raises IndexError.
\<close>

definition collide :: "params \<Rightarrow> nat \<Rightarrow> globals \<Rightarrow> error + globals" where
  "collide c i g =
     (if length (ball_pos g) \<le> i then Inl IndexError
      else if ball_pos g ! i + ball_radius c > snd (bounds c) then
        (if length (ball_vel g) \<le> i then Inl IndexError
         else Inr (g\<lparr> ball_pos := (ball_pos g)[i := snd (bounds c) - ball_radius c],
                      ball_vel := (ball_vel g)[i := ball_vel g ! i * (-1)] \<rparr>))
      else if ball_pos g ! i - ball_radius c < fst (bounds c) then
        (if length (ball_vel g) \<le> i then Inl IndexError
         else Inr (g\<lparr> ball_pos := (ball_pos g)[i := fst (bounds c) + ball_radius c],
                      ball_vel := (ball_vel g)[i := ball_vel g ! i * (-1)] \<rparr>))
      else Inr g)"

text \<open>The loop \<open>for i in range(4)\<close>, over the list of axes still to visit.\<close>

fun collide_loop :: "params \<Rightarrow> nat list \<Rightarrow> globals \<Rightarrow> error + globals" where
  "collide_loop c [] g = Inr g"
| "collide_loop c (i # is) g =
     (case collide c i g of Inl e \<Rightarrow> Inl e | Inr g' \<Rightarrow> collide_loop c is g')"

definition update_ball :: "params \<Rightarrow> globals \<Rightarrow> error + globals" where
  "update_ball c g =
     (case np_add (ball_pos g) (np_scale (ball_vel g) (dt c)) of
        Inl e \<Rightarrow> Inl e
      | Inr p \<Rightarrow> collide_loop c [0..<4] (g\<lparr> ball_pos := p \<rparr>))"

text \<open>\<open>n\<close> calls of \<open>update_ball\<close> in a row; the first exception ends the run.\<close>

fun ticks :: "params \<Rightarrow> nat \<Rightarrow> globals \<Rightarrow> error + globals" where
  "ticks c 0 g = Inr g"
| "ticks c (Suc n) g =
     (case update_ball c g of Inl e \<Rightarrow> Inl e | Inr g' \<Rightarrow> ticks c n g')"

subsection \<open>The projection (lines 27 to 37)\<close>

text \<open>The local variable \<open>factor\<close> of \<open>project_point\<close>, for eye distance \<open>d\<close> and last coordinate \<open>w\<close>.\<close>

definition factor :: "real \<Rightarrow> real \<Rightarrow> real" where
  "factor d w = d / (d - w)"

text \<open>
  Unpacking \<open>x, y, z, w = point4d\<close> raises ValueError unless the point has exactly four
  coordinates. Where \<open>d - w\<close> is zero the division gives no finite number.
\<close>

fun project_point :: "real list \<Rightarrow> real \<Rightarrow> error + projected" where
  "project_point [x, y, z, w] d =
     (if d - w = 0 then Inr NonFinite
      else Inr (Finite [x * factor d w, y * factor d w, z * factor d w]))"
| "project_point _ d = Inl ValueError"

subsection \<open>The wireframe (lines 42 to 58)\<close>

text \<open>\<open>itertools.product(pool, repeat=n)\<close>: the first coordinate changes slowest.\<close>

fun product_repeat :: "'a list \<Rightarrow> nat \<Rightarrow> 'a list list" where
  "product_repeat pool 0 = [[]]"
| "product_repeat pool (Suc n) = concat (map (\<lambda>x. map ((#) x) (product_repeat pool n)) pool)"

definition vertices_4d :: "int list list" where
  "vertices_4d = product_repeat [-1, 1] 4"

definition n_vertices :: nat where
  "n_vertices = length vertices_4d"

text \<open>The test of line 50: \<open>np.sum(np.abs(a - b) == 2) == 1\<close>.\<close>

definition connected :: "int list \<Rightarrow> int list \<Rightarrow> bool" where
  "connected a b \<longleftrightarrow> length (filter (\<lambda>x. \<bar>x\<bar> = 2) (map2 (-) a b)) = 1"

definition edges :: "(int list \<times> int list) list" where
  "edges = concat (map (\<lambda>i. concat (map (\<lambda>j.
       if connected (vertices_4d ! i) (vertices_4d ! j) then [(vertices_4d ! i, vertices_4d ! j)] else [])
     [i + 1..<n_vertices])) [0..<n_vertices])"

fun project_edges :: "(int list \<times> int list) list \<Rightarrow> real \<Rightarrow> error + (projected \<times> projected) list" where
  "project_edges [] d = Inr []"
| "project_edges (edge # rest) d =
     (case project_point (map real_of_int (fst edge)) d of
        Inl e \<Rightarrow> Inl e
      | Inr p1_3d \<Rightarrow>
          (case project_point (map real_of_int (snd edge)) d of
             Inl e \<Rightarrow> Inl e
           | Inr p2_3d \<Rightarrow>
               (case project_edges rest d of
                  Inl e \<Rightarrow> Inl e
                | Inr ps \<Rightarrow> Inr ((p1_3d, p2_3d) # ps))))"

definition projected_edges :: "params \<Rightarrow> error + (projected \<times> projected) list" where
  "projected_edges c = project_edges edges (projection_distance c)"

subsection \<open>Start of the script and the animation callback\<close>

text \<open>
  Everything the script computes before the animation starts: the wireframe, the ball at
  the origin with the velocity \<open>v0\<close> drawn by \<open>np.random.uniform(-0.5, 0.5, 4)\<close>, and the
  first projected position of the ball (line 98). No statement of the script inspects
  \<open>dt\<close>, \<open>ball_radius\<close>, \<open>bounds\<close> or \<open>projection_distance\<close> before using them, and the
  script defines and raises no exception of its own.
\<close>

definition startup :: "params \<Rightarrow> real list \<Rightarrow> error + (globals \<times> (projected \<times> projected) list)" where
  "startup c v0 =
     (case projected_edges c of
        Inl e \<Rightarrow> Inl e
      | Inr pe \<Rightarrow>
          (case project_point [0, 0, 0, 0] (projection_distance c) of
             Inl e \<Rightarrow> Inl e
           | Inr ball_proj \<Rightarrow>
               Inr (\<lparr> ball_pos = [0, 0, 0, 0], ball_vel = v0, offsets3d = ball_proj \<rparr>, pe)))"

text \<open>The callback \<open>update(frame)\<close> of lines 103 to 113; it does not read \<open>frame\<close>.\<close>

definition update :: "params \<Rightarrow> int \<Rightarrow> globals \<Rightarrow> error + globals" where
  "update c frame g =
     (case update_ball c g of
        Inl e \<Rightarrow> Inl e
      | Inr g' \<Rightarrow>
          (case project_point (ball_pos g') (projection_distance c) of
             Inl e \<Rightarrow> Inl e
           | Inr ball_proj \<Rightarrow> Inr (g'\<lparr> offsets3d := ball_proj \<rparr>)))"

text \<open>
  The animation calls \<open>update\<close> once for each frame it is given, in order. The model
  returns the state after each call.
\<close>

fun animate :: "params \<Rightarrow> int list \<Rightarrow> globals \<Rightarrow> error + globals list" where
  "animate c [] g = Inr []"
| "animate c (frame # frames) g =
     (case update c frame g of
        Inl e \<Rightarrow> Inl e
      | Inr g' \<Rightarrow>
          (case animate c frames g' of
             Inl e \<Rightarrow> Inl e
           | Inr gs \<Rightarrow> Inr (g' # gs)))"

text \<open>The number of axes on which two vertices differ, and the number of edges at a vertex.\<close>

definition differing_axes :: "int list \<Rightarrow> int list \<Rightarrow> nat" where
  "differing_axes a b = length (filter (\<lambda>k. a ! k \<noteq> b ! k) [0..<4])"

definition degree :: "int list \<Rightarrow> nat" where
  "degree v = length (filter (\<lambda>e. fst e = v \<or> snd e = v) edges)"

text \<open>
  The script gets through its start and the first call of the animation callback without
  raising an exception.
\<close>

definition starts :: "params \<Rightarrow> real list \<Rightarrow> bool" where
  "starts c v0 = (case startup c v0 of Inl e \<Rightarrow> False | Inr r \<Rightarrow> \<not> isl (animate c [0] (fst r)))"

text \<open>A state as the script builds it: position and velocity have four coordinates.\<close>

definition wf :: "globals \<Rightarrow> bool" where
  "wf g \<longleftrightarrow> length (ball_pos g) = 4 \<and> length (ball_vel g) = 4"

text \<open>The ball fits between the two walls of an axis.\<close>

definition fits :: "params \<Rightarrow> bool" where
  "fits c \<longleftrightarrow> fst (bounds c) + ball_radius c \<le> snd (bounds c) - ball_radius c"

text \<open>
  What one update does to one coordinate: the position after the Euler step is \<open>p\<close>, the
  velocity before the update is \<open>v\<close>.
\<close>

definition axis_pos :: "params \<Rightarrow> real \<Rightarrow> real" where
  "axis_pos c p =
     (if p + ball_radius c > snd (bounds c) then snd (bounds c) - ball_radius c
      else if p - ball_radius c < fst (bounds c) then fst (bounds c) + ball_radius c
      else p)"

definition axis_vel :: "params \<Rightarrow> real \<Rightarrow> real \<Rightarrow> real" where
  "axis_vel c p v =
     (if p + ball_radius c > snd (bounds c) then - v
      else if p - ball_radius c < fst (bounds c) then - v
      else v)"

section \<open>Properties of the ball update\<close>

lemma collide_axis:
  assumes "i < length (ball_pos g)" "i < length (ball_vel g)"
  shows "\<exists>g1. collide c i g = Inr g1
           \<and> length (ball_pos g1) = length (ball_pos g)
           \<and> length (ball_vel g1) = length (ball_vel g)
           \<and> offsets3d g1 = offsets3d g
           \<and> ball_pos g1 ! i = axis_pos c (ball_pos g ! i)
           \<and> ball_vel g1 ! i = axis_vel c (ball_pos g ! i) (ball_vel g ! i)
           \<and> (\<forall>j. j \<noteq> i \<longrightarrow> ball_pos g1 ! j = ball_pos g ! j \<and> ball_vel g1 ! j = ball_vel g ! j)"
proof -
  consider (high) "ball_pos g ! i + ball_radius c > snd (bounds c)"
    | (low) "\<not> ball_pos g ! i + ball_radius c > snd (bounds c)"
            "ball_pos g ! i - ball_radius c < fst (bounds c)"
    | (free) "\<not> ball_pos g ! i + ball_radius c > snd (bounds c)"
             "\<not> ball_pos g ! i - ball_radius c < fst (bounds c)"
    by blast
  then show ?thesis
  proof cases
    case high
    then show ?thesis using assms by (simp add: collide_def axis_pos_def axis_vel_def)
  next
    case low
    then show ?thesis using assms by (simp add: collide_def axis_pos_def axis_vel_def)
  next
    case free
    then show ?thesis using assms by (simp add: collide_def axis_pos_def axis_vel_def)
  qed
qed

lemma collide_loop_axes:
  assumes "distinct is" "\<forall>i\<in>set is. i < length (ball_pos g) \<and> i < length (ball_vel g)"
  shows "\<exists>g'. collide_loop c is g = Inr g'
           \<and> length (ball_pos g') = length (ball_pos g)
           \<and> length (ball_vel g') = length (ball_vel g)
           \<and> offsets3d g' = offsets3d g
           \<and> (\<forall>i. i \<in> set is \<longrightarrow>
                  ball_pos g' ! i = axis_pos c (ball_pos g ! i)
                \<and> ball_vel g' ! i = axis_vel c (ball_pos g ! i) (ball_vel g ! i))
           \<and> (\<forall>i. i \<notin> set is \<longrightarrow>
                  ball_pos g' ! i = ball_pos g ! i \<and> ball_vel g' ! i = ball_vel g ! i)"
  using assms
proof (induction "is" arbitrary: g)
  case Nil
  then show ?case by simp
next
  case (Cons a "is")
  have a: "a < length (ball_pos g)" "a < length (ball_vel g)" "a \<notin> set is"
    using Cons.prems by auto
  obtain g1 where g1: "collide c a g = Inr g1"
    and len1: "length (ball_pos g1) = length (ball_pos g)" "length (ball_vel g1) = length (ball_vel g)"
    and off1: "offsets3d g1 = offsets3d g"
    and at1: "ball_pos g1 ! a = axis_pos c (ball_pos g ! a)"
             "ball_vel g1 ! a = axis_vel c (ball_pos g ! a) (ball_vel g ! a)"
    and other1: "\<And>i. i \<noteq> a \<Longrightarrow> ball_pos g1 ! i = ball_pos g ! i \<and> ball_vel g1 ! i = ball_vel g ! i"
    using collide_axis [OF a(1) a(2), of c] by blast
  have "distinct is" "\<forall>i\<in>set is. i < length (ball_pos g1) \<and> i < length (ball_vel g1)"
    using Cons.prems len1 by auto
  from Cons.IH [OF this] obtain g' where g': "collide_loop c is g1 = Inr g'"
    and len: "length (ball_pos g') = length (ball_pos g1)" "length (ball_vel g') = length (ball_vel g1)"
    and off: "offsets3d g' = offsets3d g1"
    and inside: "\<And>i. i \<in> set is \<Longrightarrow>
                  ball_pos g' ! i = axis_pos c (ball_pos g1 ! i)
                \<and> ball_vel g' ! i = axis_vel c (ball_pos g1 ! i) (ball_vel g1 ! i)"
    and outside: "\<And>i. i \<notin> set is \<Longrightarrow>
                  ball_pos g' ! i = ball_pos g1 ! i \<and> ball_vel g' ! i = ball_vel g1 ! i"
    by blast
  have "collide_loop c (a # is) g = Inr g'"
    using g1 g' by simp
  moreover have "\<And>i. i \<in> set (a # is) \<Longrightarrow>
                  ball_pos g' ! i = axis_pos c (ball_pos g ! i)
                \<and> ball_vel g' ! i = axis_vel c (ball_pos g ! i) (ball_vel g ! i)"
  proof -
    fix i assume "i \<in> set (a # is)"
    then consider "i = a" | "i \<in> set is" "i \<noteq> a" using a(3) by auto
    then show "ball_pos g' ! i = axis_pos c (ball_pos g ! i)
                \<and> ball_vel g' ! i = axis_vel c (ball_pos g ! i) (ball_vel g ! i)"
    proof cases
      case 1
      then show ?thesis using outside [of a] a(3) at1 by simp
    next
      case 2
      then show ?thesis using inside [of i] other1 [of i] by simp
    qed
  qed
  moreover have "\<And>i. i \<notin> set (a # is) \<Longrightarrow>
                  ball_pos g' ! i = ball_pos g ! i \<and> ball_vel g' ! i = ball_vel g ! i"
    using outside other1 by simp
  ultimately show ?case
    using len len1 off off1 by simp
qed

text \<open>
  On a well-formed state the update raises nothing, and each coordinate is moved and
  reflected on its own.
\<close>

lemma update_ball_wf:
  assumes "wf g"
  shows "\<exists>g'. update_ball c g = Inr g' \<and> wf g' \<and> offsets3d g' = offsets3d g
           \<and> (\<forall>i<4. ball_pos g' ! i = axis_pos c (ball_pos g ! i + ball_vel g ! i * dt c)
                  \<and> ball_vel g' ! i = axis_vel c (ball_pos g ! i + ball_vel g ! i * dt c) (ball_vel g ! i))"
proof -
  let ?p = "map2 (+) (ball_pos g) (np_scale (ball_vel g) (dt c))"
  let ?g = "g\<lparr> ball_pos := ?p \<rparr>"
  have add: "np_add (ball_pos g) (np_scale (ball_vel g) (dt c)) = Inr ?p"
    using assms by (simp add: np_add_def np_scale_def wf_def)
  have lenp: "length ?p = 4"
    using assms by (simp add: np_scale_def wf_def)
  have nth: "\<And>i. i < 4 \<Longrightarrow> ?p ! i = ball_pos g ! i + ball_vel g ! i * dt c"
    using assms by (simp add: np_scale_def wf_def)
  have "distinct [0..<4]" by simp
  moreover have "\<forall>i\<in>set [0..<4]. i < length (ball_pos ?g) \<and> i < length (ball_vel ?g)"
    using lenp assms by (simp add: wf_def)
  ultimately obtain g' where g': "collide_loop c [0..<4] ?g = Inr g'"
    and len: "length (ball_pos g') = length (ball_pos ?g)" "length (ball_vel g') = length (ball_vel ?g)"
    and off: "offsets3d g' = offsets3d ?g"
    and inside: "\<And>i. i \<in> set [0..<4] \<Longrightarrow>
                  ball_pos g' ! i = axis_pos c (ball_pos ?g ! i)
                \<and> ball_vel g' ! i = axis_vel c (ball_pos ?g ! i) (ball_vel ?g ! i)"
    using collide_loop_axes [of "[0..<4]" ?g c] by blast
  have "update_ball c g = Inr g'"
    using add g' by (simp add: update_ball_def)
  moreover have "wf g'"
    using len lenp assms by (simp add: wf_def)
  moreover have "offsets3d g' = offsets3d g"
    using off by simp
  moreover have "\<forall>i<4. ball_pos g' ! i = axis_pos c (ball_pos g ! i + ball_vel g ! i * dt c)
                  \<and> ball_vel g' ! i = axis_vel c (ball_pos g ! i + ball_vel g ! i * dt c) (ball_vel g ! i)"
  proof (intro allI impI)
    fix i :: nat assume i: "i < 4"
    then have "i \<in> set [0..<4]" by simp
    from inside [OF this] show "ball_pos g' ! i = axis_pos c (ball_pos g ! i + ball_vel g ! i * dt c)
                  \<and> ball_vel g' ! i = axis_vel c (ball_pos g ! i + ball_vel g ! i * dt c) (ball_vel g ! i)"
      using nth [OF i] by simp
  qed
  ultimately show ?thesis by blast
qed

lemma fits_defaults: "fits defaults"
  by (simp add: fits_def defaults_def)

lemma axis_pos_range:
  assumes "fits c"
  shows "fst (bounds c) + ball_radius c \<le> axis_pos c p \<and> axis_pos c p \<le> snd (bounds c) - ball_radius c"
  using assms by (auto simp: fits_def axis_pos_def)

lemma axis_vel_cases: "axis_vel c p v = v \<or> axis_vel c p v = - v"
  by (simp add: axis_vel_def)

lemma update_ball_contained:
  assumes "wf g" "fits c"
  shows "\<exists>g'. update_ball c g = Inr g' \<and> wf g' \<and>
           (\<forall>i<4. fst (bounds c) + ball_radius c \<le> ball_pos g' ! i
                 \<and> ball_pos g' ! i \<le> snd (bounds c) - ball_radius c)"
  using update_ball_wf [OF assms(1), of c] axis_pos_range [OF assms(2)] by force

lemma ticks_contained:
  assumes "wf g" "fits c"
     "\<forall>i<4. fst (bounds c) + ball_radius c \<le> ball_pos g ! i \<and> ball_pos g ! i \<le> snd (bounds c) - ball_radius c"
  shows "\<exists>g'. ticks c n g = Inr g' \<and> wf g' \<and>
           (\<forall>i<4. fst (bounds c) + ball_radius c \<le> ball_pos g' ! i
                 \<and> ball_pos g' ! i \<le> snd (bounds c) - ball_radius c)"
  using assms
proof (induction n arbitrary: g)
  case 0
  then show ?case by simp
next
  case (Suc n)
  from update_ball_contained [OF Suc.prems(1,2)] obtain g1 where
    g1: "update_ball c g = Inr g1" "wf g1"
      "\<forall>i<4. fst (bounds c) + ball_radius c \<le> ball_pos g1 ! i \<and> ball_pos g1 ! i \<le> snd (bounds c) - ball_radius c"
    by blast
  from Suc.IH [OF g1(2) Suc.prems(2) g1(3)] show ?case
    using g1(1) by simp
qed

lemma ticks_speed:
  assumes "wf g"
  shows "\<exists>g'. ticks c n g = Inr g' \<and> wf g' \<and> (\<forall>i<4. \<bar>ball_vel g' ! i\<bar> = \<bar>ball_vel g ! i\<bar>)"
  using assms
proof (induction n arbitrary: g)
  case 0
  then show ?case by simp
next
  case (Suc n)
  from update_ball_wf [OF Suc.prems, of c] obtain g1 where
    g1: "update_ball c g = Inr g1" "wf g1"
    and v1: "\<And>i. i < 4 \<Longrightarrow> ball_vel g1 ! i = axis_vel c (ball_pos g ! i + ball_vel g ! i * dt c) (ball_vel g ! i)"
    by blast
  have abs1: "\<And>i. i < 4 \<Longrightarrow> \<bar>ball_vel g1 ! i\<bar> = \<bar>ball_vel g ! i\<bar>"
    using v1 axis_vel_cases by (metis abs_minus_cancel)
  from Suc.IH [OF g1(2)] obtain g' where
    "ticks c n g1 = Inr g'" "wf g'" "\<forall>i<4. \<bar>ball_vel g' ! i\<bar> = \<bar>ball_vel g1 ! i\<bar>"
    by blast
  then show ?case using g1(1) abs1 by simp
qed

lemma factor_pos: "0 < d \<Longrightarrow> w < d \<Longrightarrow> 0 < factor d w"
  by (simp add: factor_def)

lemma factor_strict_mono: "0 < d \<Longrightarrow> w < w' \<Longrightarrow> w' < d \<Longrightarrow> factor d w < factor d w'"
  by (simp add: factor_def frac_less2)

section \<open>The claims about the ball\<close>

text \<open>
  Claim C10. With the constants of the script (bounds \<open>(-1, 1)\<close>, radius \<open>0.1\<close>), one call of
  \<open>update_ball\<close> on any position and velocity of four coordinates, also a position far
  outside the cube, returns normally and leaves every coordinate of the position between
  \<open>bounds.low + radius\<close> and \<open>bounds.high - radius\<close>.
\<close>

theorem one_step_recontainment:
  assumes "wf g"
  shows "\<exists>g'. update_ball defaults g = Inr g' \<and>
           (\<forall>i<4. fst (bounds defaults) + ball_radius defaults \<le> ball_pos g' ! i
                 \<and> ball_pos g' ! i \<le> snd (bounds defaults) - ball_radius defaults)"
  using update_ball_contained [OF assms fits_defaults] by blast

theorem one_step_recontainment_witness:
  "wf \<lparr> ball_pos = [7, -3, 0, 1], ball_vel = [100, -2, 0, 0], offsets3d = NonFinite \<rparr>
   \<and> update_ball defaults \<lparr> ball_pos = [7, -3, 0, 1], ball_vel = [100, -2, 0, 0], offsets3d = NonFinite \<rparr>
       = Inr \<lparr> ball_pos = [9 / 10, - 9 / 10, 0, 9 / 10], ball_vel = [-100, 2, 0, 0], offsets3d = NonFinite \<rparr>"
  using one_step_recontainment [of "\<lparr> ball_pos = [7, -3, 0, 1], ball_vel = [100, -2, 0, 0], offsets3d = NonFinite \<rparr>"]
  by (simp add: wf_def update_ball_def np_add_def np_scale_def collide_def defaults_def upt_rec)

text \<open>
  Claim C1. With the constants of the script, starting from the position \<open>(0,0,0,0)\<close> with
  any velocity of four coordinates, every number \<open>n\<close> of calls of \<open>update_ball\<close> returns
  normally and every coordinate of the position then lies between \<open>bounds.low + radius\<close> and
  \<open>bounds.high - radius\<close>. The bound is exact in real arithmetic, so it holds with any
  tolerance.
\<close>

theorem containment_invariant:
  assumes "length v = 4"
  shows "\<exists>g. ticks defaults n \<lparr> ball_pos = [0, 0, 0, 0], ball_vel = v, offsets3d = p \<rparr> = Inr g \<and>
           (\<forall>i<4. fst (bounds defaults) + ball_radius defaults \<le> ball_pos g ! i
                 \<and> ball_pos g ! i \<le> snd (bounds defaults) - ball_radius defaults)"
proof -
  let ?g = "\<lparr> ball_pos = [0, 0, 0, 0], ball_vel = v, offsets3d = p \<rparr>"
  have "wf ?g" using assms by (simp add: wf_def)
  moreover have "\<forall>i<4. fst (bounds defaults) + ball_radius defaults \<le> ball_pos ?g ! i
                 \<and> ball_pos ?g ! i \<le> snd (bounds defaults) - ball_radius defaults"
    by (simp add: defaults_def nth_Cons split: nat.split)
  ultimately show ?thesis
    using ticks_contained [OF _ fits_defaults, of ?g n] by blast
qed

theorem containment_invariant_witness:
  "length [0, 0, 0, 5::real] = 4
   \<and> (\<exists>g. ticks defaults 3 \<lparr> ball_pos = [0, 0, 0, 0], ball_vel = [0, 0, 0, 5], offsets3d = NonFinite \<rparr> = Inr g \<and>
           (\<forall>i<4. fst (bounds defaults) + ball_radius defaults \<le> ball_pos g ! i
                 \<and> ball_pos g ! i \<le> snd (bounds defaults) - ball_radius defaults))"
  using containment_invariant [of "[0, 0, 0, 5]" 3 NonFinite] by simp

text \<open>
  Claim C9. One call of \<open>update_ball\<close> keeps or exactly negates each component of the
  velocity, so its absolute value is unchanged, after one call and after any number \<open>n\<close> of
  calls, for every configuration.
\<close>

theorem speed_conserved:
  assumes "wf g" "i < 4"
  shows "(\<exists>g'. update_ball c g = Inr g'
            \<and> (ball_vel g' ! i = ball_vel g ! i \<or> ball_vel g' ! i = - ball_vel g ! i)
            \<and> \<bar>ball_vel g' ! i\<bar> = \<bar>ball_vel g ! i\<bar>)
       \<and> (\<exists>g'. ticks c n g = Inr g' \<and> \<bar>ball_vel g' ! i\<bar> = \<bar>ball_vel g ! i\<bar>)"
proof
  from update_ball_wf [OF assms(1), of c] obtain g1 where
    g1: "update_ball c g = Inr g1"
    and v1: "ball_vel g1 ! i = axis_vel c (ball_pos g ! i + ball_vel g ! i * dt c) (ball_vel g ! i)"
    using assms(2) by blast
  have "ball_vel g1 ! i = ball_vel g ! i \<or> ball_vel g1 ! i = - ball_vel g ! i"
    using v1 axis_vel_cases by simp
  then show "\<exists>g'. update_ball c g = Inr g'
            \<and> (ball_vel g' ! i = ball_vel g ! i \<or> ball_vel g' ! i = - ball_vel g ! i)
            \<and> \<bar>ball_vel g' ! i\<bar> = \<bar>ball_vel g ! i\<bar>"
    using g1 by auto
next
  show "\<exists>g'. ticks c n g = Inr g' \<and> \<bar>ball_vel g' ! i\<bar> = \<bar>ball_vel g ! i\<bar>"
    using ticks_speed [OF assms(1), of c n] assms(2) by blast
qed

theorem speed_conserved_witness:
  "wf \<lparr> ball_pos = [0, 0, 0, 1], ball_vel = [1, 2, 3, 5], offsets3d = NonFinite \<rparr> \<and> (3::nat) < 4
   \<and> (\<exists>g'. update_ball defaults \<lparr> ball_pos = [0, 0, 0, 1], ball_vel = [1, 2, 3, 5], offsets3d = NonFinite \<rparr> = Inr g'
            \<and> \<bar>ball_vel g' ! 3\<bar> = 5)
   \<and> (\<exists>g'. ticks defaults 7 \<lparr> ball_pos = [0, 0, 0, 1], ball_vel = [1, 2, 3, 5], offsets3d = NonFinite \<rparr> = Inr g'
            \<and> \<bar>ball_vel g' ! 3\<bar> = 5)"
proof -
  let ?g = "\<lparr> ball_pos = [0, 0, 0, 1], ball_vel = [1, 2, 3, 5], offsets3d = NonFinite \<rparr>"
  have w: "wf ?g" by (simp add: wf_def)
  have i: "(3::nat) < 4" by simp
  from speed_conserved [OF w i, of defaults 7] show ?thesis
    using w by auto
qed

text \<open>
  Claim C2. For a state of four coordinates and an axis \<open>i\<close>: if the position after the
  Euler step plus the radius exceeds \<open>bounds.high\<close>, the update negates \<open>velocity[i]\<close> and sets
  \<open>position[i]\<close> to \<open>bounds.high - radius\<close>. If it minus the radius is below \<open>bounds.low\<close>,
  the update negates \<open>velocity[i]\<close> and sets \<open>position[i]\<close> to \<open>bounds.low + radius\<close>; this
  second half needs the ball to fit between the walls (\<open>fits\<close>, true of the constants of the
  script), since the test against the upper wall comes first.
\<close>

theorem reflection_correct:
  assumes "wf g" "i < 4"
  shows "\<exists>g'. update_ball c g = Inr g'
           \<and> (ball_pos g ! i + ball_vel g ! i * dt c + ball_radius c > snd (bounds c) \<longrightarrow>
                ball_vel g' ! i = - ball_vel g ! i \<and> ball_pos g' ! i = snd (bounds c) - ball_radius c)
           \<and> (fits c \<longrightarrow> ball_pos g ! i + ball_vel g ! i * dt c - ball_radius c < fst (bounds c) \<longrightarrow>
                ball_vel g' ! i = - ball_vel g ! i \<and> ball_pos g' ! i = fst (bounds c) + ball_radius c)"
proof -
  from update_ball_wf [OF assms(1), of c] obtain g' where
    g': "update_ball c g = Inr g'"
    and p: "ball_pos g' ! i = axis_pos c (ball_pos g ! i + ball_vel g ! i * dt c)"
    and v: "ball_vel g' ! i = axis_vel c (ball_pos g ! i + ball_vel g ! i * dt c) (ball_vel g ! i)"
    using assms(2) by blast
  show ?thesis
    using g' p v by (auto simp: axis_pos_def axis_vel_def fits_def)
qed

theorem reflection_correct_witness:
  "wf \<lparr> ball_pos = [0, 0, - 9 / 10, 9 / 10], ball_vel = [0, 0, - 5, 5], offsets3d = NonFinite \<rparr>
   \<and> (3::nat) < 4 \<and> (2::nat) < 4 \<and> fits defaults
   \<and> (9 / 10 :: real) + 5 * dt defaults + ball_radius defaults > snd (bounds defaults)
   \<and> (- 9 / 10 :: real) + (- 5) * dt defaults - ball_radius defaults < fst (bounds defaults)
   \<and> update_ball defaults \<lparr> ball_pos = [0, 0, - 9 / 10, 9 / 10], ball_vel = [0, 0, - 5, 5], offsets3d = NonFinite \<rparr>
       = Inr \<lparr> ball_pos = [0, 0, - 9 / 10, 9 / 10], ball_vel = [0, 0, 5, - 5], offsets3d = NonFinite \<rparr>"
  using reflection_correct [of "\<lparr> ball_pos = [0, 0, - 9 / 10, 9 / 10], ball_vel = [0, 0, - 5, 5], offsets3d = NonFinite \<rparr>" 3 defaults]
    reflection_correct [of "\<lparr> ball_pos = [0, 0, - 9 / 10, 9 / 10], ball_vel = [0, 0, - 5, 5], offsets3d = NonFinite \<rparr>" 2 defaults]
  by (simp add: wf_def fits_def update_ball_def np_add_def np_scale_def collide_def defaults_def upt_rec)

section \<open>The claims about the projection\<close>

text \<open>
  Claim C6. For every \<open>x\<close>, \<open>y\<close>, \<open>z\<close> and every eye distance \<open>d > 0\<close>, projecting
  \<open>(x, y, z, 0)\<close> gives exactly \<open>(x, y, z)\<close>.
\<close>

theorem project_identity:
  assumes "0 < d"
  shows "project_point [x, y, z, 0] d = Inr (Finite [x, y, z])"
  using assms by (simp add: factor_def)

theorem project_identity_witness:
  "(0::real) < 3 \<and> project_point [1, 2, 5, 0] 3 = Inr (Finite [1, 2, 5])"
  using project_identity [of 3 1 2 5] by simp

text \<open>
  Claim C7, as stated, fails for an eye distance that is not positive: with \<open>d = -1\<close> and
  \<open>w = -2 < d\<close> the factor is \<open>-1\<close>. A coordinate that is zero stays zero for every \<open>w\<close>, so
  its magnitude does not grow strictly.
\<close>

theorem projection_monotone_counterexample:
  "(-2::real) < -1 \<and> project_point [1, 1, 1, -2] (-1) = Inr (Finite [-1, -1, -1])
   \<and> \<not> 0 < factor (-1) (-2)
   \<and> (0::real) < 1 \<and> (1::real) < 3
   \<and> project_point [0, 5, 5, 0] 3 = Inr (Finite [0, 5, 5])
   \<and> project_point [0, 5, 5, 1] 3 = Inr (Finite [0, 15 / 2, 15 / 2])"
  by (simp add: factor_def)

text \<open>
  Claim C7, amended. For an eye distance \<open>d > 0\<close> and \<open>w < d\<close> the projection is finite and
  its factor is positive; the factor is strictly increasing in \<open>w\<close> below \<open>d\<close>; the magnitude
  of a projected coordinate \<open>a\<close> is \<open>\<bar>a\<bar>\<close> times the factor, so it never decreases and it
  increases strictly when \<open>a\<close> is not zero.
\<close>

theorem projection_monotone:
  assumes "0 < d" "w < d"
  shows "project_point [x, y, z, w] d = Inr (Finite [x * factor d w, y * factor d w, z * factor d w])
       \<and> 0 < factor d w
       \<and> (\<forall>w' a. w < w' \<and> w' < d \<longrightarrow>
              factor d w < factor d w'
            \<and> \<bar>a * factor d w\<bar> = \<bar>a\<bar> * factor d w
            \<and> \<bar>a * factor d w\<bar> \<le> \<bar>a * factor d w'\<bar>
            \<and> (a \<noteq> 0 \<longrightarrow> \<bar>a * factor d w\<bar> < \<bar>a * factor d w'\<bar>))"
proof (intro conjI allI impI)
  show "project_point [x, y, z, w] d = Inr (Finite [x * factor d w, y * factor d w, z * factor d w])"
    using assms by simp
  show "0 < factor d w" using assms by (rule factor_pos)
next
  fix w' a :: real assume w': "w < w' \<and> w' < d"
  then have lt: "factor d w < factor d w'" and pos': "0 < factor d w'"
    using assms factor_strict_mono factor_pos by auto
  have pos: "0 < factor d w" using assms by (rule factor_pos)
  show "factor d w < factor d w'" by (rule lt)
  show eq: "\<bar>a * factor d w\<bar> = \<bar>a\<bar> * factor d w"
    using pos by (simp add: abs_mult)
  have eq': "\<bar>a * factor d w'\<bar> = \<bar>a\<bar> * factor d w'"
    using pos' by (simp add: abs_mult)
  show "\<bar>a * factor d w\<bar> \<le> \<bar>a * factor d w'\<bar>"
    unfolding eq eq' using lt by (simp add: mult_left_mono)
  show "\<bar>a * factor d w\<bar> < \<bar>a * factor d w'\<bar>" if "a \<noteq> 0"
    unfolding eq eq' using lt that by simp
qed

theorem projection_monotone_witness:
  "(0::real) < 3 \<and> (0::real) < 3 \<and> (0::real) < 1 \<and> (1::real) < 3
   \<and> project_point [2, 4, 6, 0] 3 = Inr (Finite [2, 4, 6])
   \<and> factor 3 0 < factor 3 1
   \<and> \<bar>2 * factor 3 0\<bar> < \<bar>2 * factor 3 1\<bar>"
  using projection_monotone [of 3 0 2 4 6] by (simp add: factor_def)

section \<open>The wireframe\<close>

text \<open>The two lists the script computes, written out.\<close>

lemma vertices_4d_eq: "vertices_4d =
  [[- 1, - 1, - 1, - 1],
   [- 1, - 1, - 1, 1],
   [- 1, - 1, 1, - 1],
   [- 1, - 1, 1, 1],
   [- 1, 1, - 1, - 1],
   [- 1, 1, - 1, 1],
   [- 1, 1, 1, - 1],
   [- 1, 1, 1, 1],
   [1, - 1, - 1, - 1],
   [1, - 1, - 1, 1],
   [1, - 1, 1, - 1],
   [1, - 1, 1, 1],
   [1, 1, - 1, - 1],
   [1, 1, - 1, 1],
   [1, 1, 1, - 1],
   [1, 1, 1, 1]]"
  by code_simp

lemma edges_eq: "edges =
  [([- 1, - 1, - 1, - 1], [- 1, - 1, - 1, 1]),
   ([- 1, - 1, - 1, - 1], [- 1, - 1, 1, - 1]),
   ([- 1, - 1, - 1, - 1], [- 1, 1, - 1, - 1]),
   ([- 1, - 1, - 1, - 1], [1, - 1, - 1, - 1]),
   ([- 1, - 1, - 1, 1], [- 1, - 1, 1, 1]),
   ([- 1, - 1, - 1, 1], [- 1, 1, - 1, 1]),
   ([- 1, - 1, - 1, 1], [1, - 1, - 1, 1]),
   ([- 1, - 1, 1, - 1], [- 1, - 1, 1, 1]),
   ([- 1, - 1, 1, - 1], [- 1, 1, 1, - 1]),
   ([- 1, - 1, 1, - 1], [1, - 1, 1, - 1]),
   ([- 1, - 1, 1, 1], [- 1, 1, 1, 1]),
   ([- 1, - 1, 1, 1], [1, - 1, 1, 1]),
   ([- 1, 1, - 1, - 1], [- 1, 1, - 1, 1]),
   ([- 1, 1, - 1, - 1], [- 1, 1, 1, - 1]),
   ([- 1, 1, - 1, - 1], [1, 1, - 1, - 1]),
   ([- 1, 1, - 1, 1], [- 1, 1, 1, 1]),
   ([- 1, 1, - 1, 1], [1, 1, - 1, 1]),
   ([- 1, 1, 1, - 1], [- 1, 1, 1, 1]),
   ([- 1, 1, 1, - 1], [1, 1, 1, - 1]),
   ([- 1, 1, 1, 1], [1, 1, 1, 1]),
   ([1, - 1, - 1, - 1], [1, - 1, - 1, 1]),
   ([1, - 1, - 1, - 1], [1, - 1, 1, - 1]),
   ([1, - 1, - 1, - 1], [1, 1, - 1, - 1]),
   ([1, - 1, - 1, 1], [1, - 1, 1, 1]),
   ([1, - 1, - 1, 1], [1, 1, - 1, 1]),
   ([1, - 1, 1, - 1], [1, - 1, 1, 1]),
   ([1, - 1, 1, - 1], [1, 1, 1, - 1]),
   ([1, - 1, 1, 1], [1, 1, 1, 1]),
   ([1, 1, - 1, - 1], [1, 1, - 1, 1]),
   ([1, 1, - 1, - 1], [1, 1, 1, - 1]),
   ([1, 1, - 1, 1], [1, 1, 1, 1]),
   ([1, 1, 1, - 1], [1, 1, 1, 1])]"
  by code_simp

lemma vertices_length: "length vertices_4d = 16"
  unfolding vertices_4d_eq by simp

lemma vertices_distinct: "distinct vertices_4d"
  unfolding vertices_4d_eq by simp

lemma edges_length: "length edges = 32"
  unfolding edges_eq by simp

lemma edges_distinct: "distinct edges"
  unfolding edges_eq by simp

lemma edges_join: "\<forall>e\<in>set edges. fst e \<in> set vertices_4d \<and> snd e \<in> set vertices_4d \<and> differing_axes (fst e) (snd e) = 1"
  unfolding edges_eq vertices_4d_eq differing_axes_def by (simp add: upt_rec)

lemma edges_one_way: "\<forall>e\<in>set edges. (snd e, fst e) \<notin> set edges"
  unfolding edges_eq by simp

lemma vertices_degree: "\<forall>v\<in>set vertices_4d. degree v = 4"
  unfolding degree_def edges_eq vertices_4d_eq by simp

lemma vertices_shape: "\<forall>v\<in>set vertices_4d. length v = 4 \<and> set v \<subseteq> {-1, 1}"
  unfolding vertices_4d_eq by simp

lemma edges_complete:
  "\<forall>a\<in>set vertices_4d. \<forall>b\<in>set vertices_4d.
     differing_axes a b = 1 \<longrightarrow> (a, b) \<in> set edges \<or> (b, a) \<in> set edges"
  unfolding edges_eq vertices_4d_eq differing_axes_def by (simp add: upt_rec)

lemma vertex_complete:
  assumes "length v = 4" "set v \<subseteq> {-1, 1}"
  shows "v \<in> set vertices_4d"
proof -
  have "length v = Suc (Suc (Suc (Suc 0)))" using assms(1) by simp
  then obtain a b c d where v: "v = [a, b, c, d]"
    by (auto simp: length_Suc_conv)
  with assms(2) have "a = -1 \<or> a = 1" "b = -1 \<or> b = 1" "c = -1 \<or> c = 1" "d = -1 \<or> d = 1"
    by simp_all
  then show ?thesis
    by (elim disjE) (simp_all add: v vertices_4d_eq)
qed

lemma vertices_set: "set vertices_4d = {v. length v = 4 \<and> set v \<subseteq> {-1, 1}}"
proof (intro equalityI subsetI)
  fix v assume "v \<in> set vertices_4d"
  with vertices_shape show "v \<in> {v. length v = 4 \<and> set v \<subseteq> {-1, 1}}" by simp
next
  fix v :: "int list" assume "v \<in> {v. length v = 4 \<and> set v \<subseteq> {-1, 1}}"
  then show "v \<in> set vertices_4d" using vertex_complete by simp
qed

lemma unordered_distinct:
  assumes "distinct es" "\<forall>e\<in>set es. (snd e, fst e) \<notin> set es"
  shows "distinct (map (\<lambda>e. {fst e, snd e}) es)"
proof -
  have "inj_on (\<lambda>e. {fst e, snd e}) (set es)"
  proof (rule inj_onI)
    fix e e' assume e: "e \<in> set es" and e': "e' \<in> set es" and eq: "{fst e, snd e} = {fst e', snd e'}"
    from eq consider "fst e = fst e'" "snd e = snd e'" | "fst e = snd e'" "snd e = fst e'"
      by (auto simp: doubleton_eq_iff)
    then show "e = e'"
    proof cases
      case 1
      then show ?thesis by (simp add: prod_eq_iff)
    next
      case 2
      then have "(snd e', fst e') = e" by (simp add: prod_eq_iff)
      with e e' assms(2) show ?thesis by blast
    qed
  qed
  with assms(1) show ?thesis by (simp add: distinct_map)
qed

text \<open>
  Claim C3. The script generates 16 distinct vertices, exactly the lists of four entries
  each \<open>-1\<close> or \<open>1\<close>, and 32 edges. Each edge joins two generated vertices that differ on
  exactly one axis, and any two vertices that differ on exactly one axis are joined by an
  edge. No unordered pair of vertices occurs twice among the edges, and every vertex lies on
  exactly 4 edges.
\<close>

theorem hypercube_geometry:
  "length vertices_4d = 16 \<and> distinct vertices_4d
   \<and> set vertices_4d = {v. length v = 4 \<and> set v \<subseteq> {-1, 1}}
   \<and> length edges = 32
   \<and> (\<forall>e\<in>set edges. fst e \<in> set vertices_4d \<and> snd e \<in> set vertices_4d \<and> differing_axes (fst e) (snd e) = 1)
   \<and> (\<forall>a\<in>set vertices_4d. \<forall>b\<in>set vertices_4d.
         differing_axes a b = 1 \<longrightarrow> (a, b) \<in> set edges \<or> (b, a) \<in> set edges)
   \<and> distinct (map (\<lambda>e. {fst e, snd e}) edges)
   \<and> (\<forall>v\<in>set vertices_4d. degree v = 4)"
proof (intro conjI)
  show "length vertices_4d = 16" by (rule vertices_length)
  show "distinct vertices_4d" by (rule vertices_distinct)
  show "set vertices_4d = {v. length v = 4 \<and> set v \<subseteq> {-1, 1}}" by (rule vertices_set)
  show "length edges = 32" by (rule edges_length)
  show "\<forall>e\<in>set edges. fst e \<in> set vertices_4d \<and> snd e \<in> set vertices_4d \<and> differing_axes (fst e) (snd e) = 1"
    by (rule edges_join)
  show "\<forall>a\<in>set vertices_4d. \<forall>b\<in>set vertices_4d.
         differing_axes a b = 1 \<longrightarrow> (a, b) \<in> set edges \<or> (b, a) \<in> set edges"
    by (rule edges_complete)
  show "distinct (map (\<lambda>e. {fst e, snd e}) edges)" by (rule unordered_distinct [OF edges_distinct edges_one_way])
  show "\<forall>v\<in>set vertices_4d. degree v = 4" by (rule vertices_degree)
qed

theorem hypercube_geometry_witness:
  "([- 1, - 1, - 1, - 1], [- 1, - 1, - 1, 1]) \<in> set edges
   \<and> differing_axes [- 1, - 1, - 1, - 1] [- 1, - 1, - 1, 1] = 1
   \<and> [1, 1, 1, 1] \<in> set vertices_4d \<and> degree [1, 1, 1, 1] = 4"
proof -
  have e: "([- 1, - 1, - 1, - 1], [- 1, - 1, - 1, 1]) \<in> set edges"
    unfolding edges_eq by simp
  have v: "[1, 1, 1, 1] \<in> set vertices_4d"
    unfolding vertices_4d_eq by simp
  have all_e: "\<forall>e\<in>set edges. differing_axes (fst e) (snd e) = 1"
    using hypercube_geometry by simp
  have all_v: "\<forall>v\<in>set vertices_4d. degree v = 4"
    using hypercube_geometry by simp
  from bspec [OF all_e e] bspec [OF all_v v] show ?thesis
    using e v by simp
qed

section \<open>The scenario and the animation\<close>

lemma range4: "[0..<4] = [0, 1, 2, 3]"
  by (simp add: upt_rec)

lemma scenario_9:
  "ticks defaults 9 \<lparr> ball_pos = [0, 0, 0, 0], ball_vel = [0, 0, 0, 5], offsets3d = q \<rparr>
     = Inr \<lparr> ball_pos = [0, 0, 0, 9 / 10], ball_vel = [0, 0, 0, 5], offsets3d = q \<rparr>"
  by (simp add: eval_nat_numeral update_ball_def np_add_def np_scale_def collide_def defaults_def range4)

lemma scenario_10:
  "ticks defaults 10 \<lparr> ball_pos = [0, 0, 0, 0], ball_vel = [0, 0, 0, 5], offsets3d = q \<rparr>
     = Inr \<lparr> ball_pos = [0, 0, 0, 9 / 10], ball_vel = [0, 0, 0, - 5], offsets3d = q \<rparr>"
  by (simp add: eval_nat_numeral update_ball_def np_add_def np_scale_def collide_def defaults_def range4)

text \<open>
  Claim C5. With the constants of the script (bounds \<open>(-1, 1)\<close>, radius \<open>0.1\<close>, \<open>dt = 0.02\<close>),
  from position \<open>(0,0,0,0)\<close> and velocity \<open>(0,0,0,5)\<close>: after 9 calls \<open>velocity[3]\<close> is still
  \<open>5\<close>; the 10th call leaves \<open>position[3]\<close> at exactly \<open>0.9 = bounds.high - radius\<close> and turns
  \<open>velocity[3]\<close> into \<open>-5\<close>; after any number of calls \<open>position[3]\<close> is at most \<open>0.9\<close>.
\<close>

theorem scenario:
  "snd (bounds defaults) - ball_radius defaults = 9 / 10 \<and> dt defaults = 2 / 100
   \<and> (\<exists>g. ticks defaults 9 \<lparr> ball_pos = [0, 0, 0, 0], ball_vel = [0, 0, 0, 5], offsets3d = q \<rparr> = Inr g
          \<and> ball_vel g ! 3 = 5)
   \<and> (\<exists>g. ticks defaults 10 \<lparr> ball_pos = [0, 0, 0, 0], ball_vel = [0, 0, 0, 5], offsets3d = q \<rparr> = Inr g
          \<and> ball_pos g ! 3 = 9 / 10 \<and> ball_vel g ! 3 = - 5)
   \<and> (\<forall>n. \<exists>g. ticks defaults n \<lparr> ball_pos = [0, 0, 0, 0], ball_vel = [0, 0, 0, 5], offsets3d = q \<rparr> = Inr g
          \<and> ball_pos g ! 3 \<le> 9 / 10)"
proof (intro conjI allI)
  let ?g = "\<lparr> ball_pos = [0, 0, 0, 0], ball_vel = [0, 0, 0, 5], offsets3d = q \<rparr>"
  show "snd (bounds defaults) - ball_radius defaults = 9 / 10" by (simp add: defaults_def)
  show "dt defaults = 2 / 100" by (simp add: defaults_def)
  show "\<exists>g. ticks defaults 9 ?g = Inr g \<and> ball_vel g ! 3 = 5"
    by (simp add: scenario_9)
  show "\<exists>g. ticks defaults 10 ?g = Inr g \<and> ball_pos g ! 3 = 9 / 10 \<and> ball_vel g ! 3 = - 5"
    by (simp add: scenario_10)
  fix n
  have "wf ?g" by (simp add: wf_def)
  moreover have "\<forall>i<4. fst (bounds defaults) + ball_radius defaults \<le> ball_pos ?g ! i
                 \<and> ball_pos ?g ! i \<le> snd (bounds defaults) - ball_radius defaults"
    by (simp add: defaults_def nth_Cons split: nat.split)
  ultimately obtain g where g: "ticks defaults n ?g = Inr g"
    and "\<forall>i<4. ball_pos g ! i \<le> snd (bounds defaults) - ball_radius defaults"
    using ticks_contained [OF _ fits_defaults, of ?g n] by blast
  then have "ball_pos g ! 3 \<le> 9 / 10" by (simp add: defaults_def)
  with g show "\<exists>g. ticks defaults n ?g = Inr g \<and> ball_pos g ! 3 \<le> 9 / 10" by blast
qed

lemma collide_offsets:
  "collide c i (g\<lparr> offsets3d := q \<rparr>) = map_sum id (\<lambda>g'. g'\<lparr> offsets3d := q \<rparr>) (collide c i g)"
  by (simp add: collide_def)

lemma collide_loop_offsets:
  "collide_loop c axes (g\<lparr> offsets3d := q \<rparr>) = map_sum id (\<lambda>g'. g'\<lparr> offsets3d := q \<rparr>) (collide_loop c axes g)"
proof (induction axes arbitrary: g)
  case Nil
  then show ?case by simp
next
  case (Cons i axes)
  show ?case
  proof (cases "collide c i g")
    case (Inl e)
    then show ?thesis by (simp add: collide_offsets)
  next
    case (Inr g1)
    then show ?thesis using Cons.IH [of g1] by (simp add: collide_offsets)
  qed
qed

lemma update_ball_offsets:
  "update_ball c (g\<lparr> offsets3d := q \<rparr>) = map_sum id (\<lambda>g'. g'\<lparr> offsets3d := q \<rparr>) (update_ball c g)"
proof (cases "np_add (ball_pos g) (np_scale (ball_vel g) (dt c))")
  case (Inl e)
  then show ?thesis by (simp add: update_ball_def)
next
  case (Inr p)
  have swap: "g\<lparr> offsets3d := q, ball_pos := p \<rparr> = (g\<lparr> ball_pos := p \<rparr>)\<lparr> offsets3d := q \<rparr>"
    by simp
  have "update_ball c (g\<lparr> offsets3d := q \<rparr>) = collide_loop c [0..<4] (g\<lparr> offsets3d := q, ball_pos := p \<rparr>)"
    using Inr by (simp add: update_ball_def)
  also have "\<dots> = collide_loop c [0..<4] ((g\<lparr> ball_pos := p \<rparr>)\<lparr> offsets3d := q \<rparr>)"
    by (simp only: swap)
  also have "\<dots> = map_sum id (\<lambda>g'. g'\<lparr> offsets3d := q \<rparr>) (collide_loop c [0..<4] (g\<lparr> ball_pos := p \<rparr>))"
    by (rule collide_loop_offsets)
  also have "\<dots> = map_sum id (\<lambda>g'. g'\<lparr> offsets3d := q \<rparr>) (update_ball c g)"
    using Inr by (simp add: update_ball_def)
  finally show ?thesis .
qed

lemma update_offsets:
  "update c frame (g\<lparr> offsets3d := q \<rparr>) = update c frame' g"
proof (cases "update_ball c g")
  case (Inl e)
  then show ?thesis by (simp add: update_def update_ball_offsets)
next
  case (Inr g1)
  then show ?thesis
    by (cases "project_point (ball_pos g1) (projection_distance c)")
       (simp_all add: update_def update_ball_offsets)
qed

lemma update_agree:
  assumes "ball_pos g1 = ball_pos g2" "ball_vel g1 = ball_vel g2"
  shows "update c frame1 g1 = update c frame2 g2"
proof -
  have "g1 = g2\<lparr> offsets3d := offsets3d g1 \<rparr>"
    using assms by simp
  then show ?thesis
    using update_offsets [where c = c and frame = frame1 and g = g2 and q = "offsets3d g1" and frame' = frame2] by simp
qed

lemma animate_frames:
  assumes "length frames1 = length frames2"
  shows "animate c frames1 g = animate c frames2 g"
  using assms
proof (induction frames1 frames2 arbitrary: g rule: list_induct2)
  case Nil
  then show ?case by simp
next
  case (Cons f1 fs1 f2 fs2)
  have "update c f1 g = update c f2 g" by (rule update_agree) simp_all
  then show ?case using Cons.IH by (simp split: sum.splits)
qed

lemma project_point_total:
  assumes "length p = 4"
  shows "\<exists>q. project_point p d = Inr q"
proof -
  have "length p = Suc (Suc (Suc (Suc 0)))" using assms by simp
  then obtain x y z w where "p = [x, y, z, w]"
    by (auto simp: length_Suc_conv)
  then show ?thesis by simp
qed

lemma update_total:
  assumes "wf g"
  shows "\<exists>g'. update c frame g = Inr g' \<and> wf g'"
proof -
  from update_ball_wf [OF assms, of c] obtain g1 where g1: "update_ball c g = Inr g1" "wf g1"
    by blast
  then obtain q where "project_point (ball_pos g1) (projection_distance c) = Inr q"
    using project_point_total [of "ball_pos g1"] by (auto simp: wf_def)
  then show ?thesis using g1 by (simp add: update_def wf_def)
qed

lemma animate_total:
  assumes "wf g"
  shows "\<exists>gs. animate c frames g = Inr gs \<and> length gs = length frames"
  using assms
proof (induction frames arbitrary: g)
  case Nil
  then show ?case by simp
next
  case (Cons f fs)
  from update_total [OF Cons.prems, of c f] obtain g1 where g1: "update c f g = Inr g1" "wf g1"
    by blast
  from Cons.IH [OF g1(2)] obtain gs where "animate c fs g1 = Inr gs" "length gs = length fs"
    by blast
  then show ?case using g1(1) by simp
qed

text \<open>
  Claim C8. Two runs of the animation with the same configuration, started from states with
  the same position and the same velocity and given the same number of frames, produce the
  same result: the same sequence of states, hence of ball positions and of projected
  positions, or the same exception. Neither the frame numbers nor the previous content of
  the scatter object has any influence. From a state of four coordinates the run raises
  nothing and yields one state per frame.
\<close>

theorem determinism:
  assumes "ball_pos g1 = ball_pos g2" "ball_vel g1 = ball_vel g2" "length frames1 = length frames2"
  shows "animate c frames1 g1 = animate c frames2 g2
       \<and> (wf g1 \<longrightarrow> (\<exists>gs. animate c frames1 g1 = Inr gs \<and> length gs = length frames1))"
proof
  show "animate c frames1 g1 = animate c frames2 g2"
  proof (cases frames1)
    case Nil
    then show ?thesis using assms(3) by simp
  next
    case (Cons f1 fs1)
    then obtain f2 fs2 where f2: "frames2 = f2 # fs2" "length fs1 = length fs2"
      using assms(3) by (cases frames2) auto
    have "update c f1 g1 = update c f2 g2"
      using assms(1,2) by (rule update_agree)
    then show ?thesis
      using Cons f2 animate_frames [OF f2(2), of c] by (simp split: sum.splits)
  qed
  show "wf g1 \<longrightarrow> (\<exists>gs. animate c frames1 g1 = Inr gs \<and> length gs = length frames1)"
    using animate_total by blast
qed


theorem determinism_witness:
  "ball_pos \<lparr> ball_pos = [0, 0, 0, 0], ball_vel = [0, 0, 0, 5], offsets3d = NonFinite \<rparr>
     = ball_pos \<lparr> ball_pos = [0, 0, 0, 0], ball_vel = [0, 0, 0, 5], offsets3d = Finite [0, 0, 0] \<rparr>
   \<and> ball_vel \<lparr> ball_pos = [0, 0, 0, 0], ball_vel = [0, 0, 0, 5], offsets3d = NonFinite \<rparr>
     = ball_vel \<lparr> ball_pos = [0, 0, 0, 0], ball_vel = [0, 0, 0, 5], offsets3d = Finite [0, 0, 0] \<rparr>
   \<and> length [0, 1 :: int] = length [7, 7 :: int]
   \<and> wf \<lparr> ball_pos = [0, 0, 0, 0], ball_vel = [0, 0, 0, 5], offsets3d = NonFinite \<rparr>
   \<and> animate defaults [0, 1] \<lparr> ball_pos = [0, 0, 0, 0], ball_vel = [0, 0, 0, 5], offsets3d = NonFinite \<rparr>
     = animate defaults [7, 7] \<lparr> ball_pos = [0, 0, 0, 0], ball_vel = [0, 0, 0, 5], offsets3d = Finite [0, 0, 0] \<rparr>
   \<and> (\<exists>gs. animate defaults [0, 1] \<lparr> ball_pos = [0, 0, 0, 0], ball_vel = [0, 0, 0, 5], offsets3d = NonFinite \<rparr> = Inr gs
          \<and> length gs = length [0, 1 :: int])"
proof -
  let ?g1 = "\<lparr> ball_pos = [0, 0, 0, 0], ball_vel = [0, 0, 0, 5], offsets3d = NonFinite \<rparr>"
  let ?g2 = "\<lparr> ball_pos = [0, 0, 0, 0], ball_vel = [0, 0, 0, 5], offsets3d = Finite [0, 0, 0] \<rparr>"
  have h1: "ball_pos ?g1 = ball_pos ?g2" by simp
  have h2: "ball_vel ?g1 = ball_vel ?g2" by simp
  have h3: "length [0, 1 :: int] = length [7, 7 :: int]" by simp
  have w: "wf ?g1" by (simp add: wf_def)
  from determinism [OF h1 h2 h3, of defaults] w
  have eq: "animate defaults [0, 1] ?g1 = animate defaults [7, 7] ?g2"
    and ex: "\<exists>gs. animate defaults [0, 1] ?g1 = Inr gs \<and> length gs = length [0, 1 :: int]"
    by blast+
  show ?thesis
    by (intro conjI) (rule h1 h2 h3 w eq ex)+
qed

section \<open>The start of the script\<close>

lemma edges_lengths: "\<forall>e\<in>set edges. length (fst e) = 4 \<and> length (snd e) = 4"
  unfolding edges_eq by simp

lemma project_edges_total:
  assumes "\<forall>e\<in>set es. length (fst e) = 4 \<and> length (snd e) = 4"
  shows "\<exists>ps. project_edges es d = Inr ps \<and> length ps = length es"
  using assms
proof (induction es)
  case Nil
  then show ?case by simp
next
  case (Cons e es)
  obtain p1 where p1: "project_point (map real_of_int (fst e)) d = Inr p1"
    using Cons.prems project_point_total [of "map real_of_int (fst e)" d] by auto
  obtain p2 where p2: "project_point (map real_of_int (snd e)) d = Inr p2"
    using Cons.prems project_point_total [of "map real_of_int (snd e)" d] by auto
  obtain ps where ps: "project_edges es d = Inr ps" "length ps = length es"
    using Cons by auto
  show ?case using p1 p2 ps by simp
qed

lemma startup_total:
  "\<exists>ball_proj pe. startup c v0 = Inr (\<lparr> ball_pos = [0, 0, 0, 0], ball_vel = v0, offsets3d = ball_proj \<rparr>, pe)
      \<and> length pe = 32"
proof -
  obtain pe where pe: "projected_edges c = Inr pe" "length pe = 32"
    using project_edges_total [OF edges_lengths, of "projection_distance c"] edges_length
    by (auto simp: projected_edges_def)
  obtain q where q: "project_point [0, 0, 0, 0] (projection_distance c) = Inr q"
    using project_point_total [of "[0, 0, 0, 0]"] by auto
  show ?thesis using pe q by (simp add: startup_def)
qed

lemma starts_total:
  assumes "length v0 = 4"
  shows "starts c v0"
proof -
  obtain q pe where r: "startup c v0 = Inr (\<lparr> ball_pos = [0, 0, 0, 0], ball_vel = v0, offsets3d = q \<rparr>, pe)"
    using startup_total by blast
  have "wf \<lparr> ball_pos = [0, 0, 0, 0], ball_vel = v0, offsets3d = q \<rparr>"
    using assms by (simp add: wf_def)
  from animate_total [OF this, of c "[0]"] show ?thesis
    using r by (auto simp: starts_def)
qed

text \<open>
  Claim C4, as stated, fails: the script validates nothing. With \<open>dt = 0\<close>, with radius \<open>0\<close>,
  with radius \<open>1 = (high - low) / 2\<close> and with projection distance \<open>1.05 \<le> high + radius\<close>
  the script starts and runs its first frame without an exception.
\<close>

theorem no_validation_counterexample:
  "dt (defaults\<lparr> dt := 0 \<rparr>) \<le> 0 \<and> starts (defaults\<lparr> dt := 0 \<rparr>) [0, 0, 0, 0]
   \<and> ball_radius (defaults\<lparr> ball_radius := 0 \<rparr>) \<le> 0 \<and> starts (defaults\<lparr> ball_radius := 0 \<rparr>) [0, 0, 0, 0]
   \<and> ball_radius (defaults\<lparr> ball_radius := 1 \<rparr>)
        \<ge> (snd (bounds (defaults\<lparr> ball_radius := 1 \<rparr>)) - fst (bounds (defaults\<lparr> ball_radius := 1 \<rparr>))) / 2
     \<and> starts (defaults\<lparr> ball_radius := 1 \<rparr>) [0, 0, 0, 0]
   \<and> projection_distance (defaults\<lparr> projection_distance := 21 / 20 \<rparr>)
        \<le> snd (bounds (defaults\<lparr> projection_distance := 21 / 20 \<rparr>))
          + ball_radius (defaults\<lparr> projection_distance := 21 / 20 \<rparr>)
     \<and> starts (defaults\<lparr> projection_distance := 21 / 20 \<rparr>) [0, 0, 0, 0]"
proof -
  have len: "length [0, 0, 0, 0 :: real] = 4" by simp
  show ?thesis
    using starts_total [OF len] by (simp add: defaults_def)
qed

text \<open>
  Claim C4, amended. For every configuration the start of the script raises nothing and
  leaves the ball at the origin with the velocity drawn; with a velocity of four
  coordinates the first frame runs too. The constants written in the script satisfy
  \<open>dt > 0\<close>, \<open>radius > 0\<close>, \<open>radius < (high - low) / 2\<close> and
  \<open>projection_distance > high + radius\<close>.
\<close>

theorem startup_unvalidated:
  "(\<exists>ball_proj pe. startup c v0 = Inr (\<lparr> ball_pos = [0, 0, 0, 0], ball_vel = v0, offsets3d = ball_proj \<rparr>, pe))
   \<and> (length v0 = 4 \<longrightarrow> starts c v0)
   \<and> 0 < dt defaults \<and> 0 < ball_radius defaults
   \<and> ball_radius defaults < (snd (bounds defaults) - fst (bounds defaults)) / 2
   \<and> projection_distance defaults > snd (bounds defaults) + ball_radius defaults"
proof -
  have "\<exists>ball_proj pe. startup c v0 = Inr (\<lparr> ball_pos = [0, 0, 0, 0], ball_vel = v0, offsets3d = ball_proj \<rparr>, pe)"
    using startup_total [of c v0] by blast
  moreover have "length v0 = 4 \<longrightarrow> starts c v0"
    using starts_total by blast
  ultimately show ?thesis by (simp add: defaults_def)
qed

theorem startup_unvalidated_witness:
  "length [1 / 4, 0, - 1 / 4, 1 / 2 :: real] = 4 \<and> starts (defaults\<lparr> dt := - 1 \<rparr>) [1 / 4, 0, - 1 / 4, 1 / 2]"
  using startup_unvalidated [of "defaults\<lparr> dt := - 1 \<rparr>" "[1 / 4, 0, - 1 / 4, 1 / 2]"] by simp

end
